theory Spec2Isabelle
  imports Main "HOL-Library.Word"
begin

unbundle bit_operations_syntax

section \<open>Transaction parser of the transaction pool (txpool/types.go)\<close>

text \<open>
  The development embeds the RLP primitives \<open>beInt\<close>, \<open>prefix\<close>, \<open>parseUint64\<close>,
  \<open>parseUint256\<close> and the walker \<open>ParseTransaction\<close> of \<^verbatim>\<open>txpool/types.go\<close>.

  \<^item> A Go \<open>[]byte\<close> is a list of bytes; its capacity is taken to be its length.
  \<^item> A Go \<open>int\<close> is a HOL \<open>int\<close>; a sum or shift whose operand may be an arbitrary
    decoded length is wrapped to 64 bits, signed (\<open>int64\<close>), as the hardware does. Sums of a
    valid index and a constant below ten are not wrapped: a slice is far shorter than
    \<open>2^63\<close> bytes.
  \<^item> \<open>uint64\<close> is \<open>64 word\<close>, \<open>uint256.Int\<close> is \<open>256 word\<close>, a Go \<open>uint\<close> is a
    natural number reduced modulo \<open>2^64\<close>.
  \<^item> A Go \<open>error\<close> is a value of \<open>error\<close>; a run-time panic (index or slice bounds
    out of range) is the value \<open>Panic\<close>. The operands that the format strings print
    (\<open>%x\<close>, \<open>%d\<close>) are not part of the modelled message.
  \<^item> Record fields are global names, so the context's \<open>v, r, s, buf\<close> are
    \<open>ctx_v, ctx_r, ctx_s, ctx_buf\<close>, and the locals \<open>dataPos, dataLen\<close> of the
    functions are written \<open>dPos, dLen\<close>.
  \<^item> The two hash accumulators are the byte streams written to them since the last
    \<open>Reset\<close>; Keccak-256 itself (package \<open>sha3\<close>, not part of the file) is a parameter
    \<open>K\<close> from byte streams to digests.
\<close>

subsection \<open>Data\<close>

type_synonym byte = "8 word"

text \<open>
  \<open>Errorf f\<close> is the error made by \<open>fmt.Errorf\<close> from the format string \<open>f\<close>;
  \<open>Wrapf f e\<close> is the one whose format has a \<open>%w\<close> or \<open>%v\<close> operand \<open>e\<close>.
  A panic is not an error value: it passes through every \<open>if err != nil\<close> unwrapped.
\<close>

datatype error =
    Errorf string
  | Wrapf string error
  | Panic

definition wrapf :: "string \<Rightarrow> error \<Rightarrow> error" where
  "wrapf f e = (if e = Panic then Panic else Wrapf f e)"

record TxParseContext =
  keccak1 :: "byte list"
  keccak2 :: "byte list"
  ctx_v :: "256 word"
  ctx_r :: "256 word"
  ctx_s :: "256 word"
  n27 :: "256 word"
  n28 :: "256 word"
  n35 :: "256 word"
  ctx_buf :: "byte list"
  sighash :: "byte list"
  sig :: "byte list"

definition NewTxParseContext :: TxParseContext where
  "NewTxParseContext =
     \<lparr> keccak1 = [], keccak2 = [], ctx_v = 0, ctx_r = 0, ctx_s = 0,
       n27 = 27, n28 = 28, n35 = 35,
       ctx_buf = replicate 33 0, sighash = replicate 32 0, sig = replicate 65 0 \<rparr>"

record TxSlot =
  txId :: "64 word"
  senderId :: "64 word"
  nonce :: "64 word"
  tip :: "64 word"
  feeCap :: "64 word"
  gas :: "64 word"
  "value" :: "256 word"
  creation :: bool
  dataLen :: int
  alAddrCount :: int
  alStorCount :: int
  bestIdx :: int
  worstIdx :: int
  local :: bool
  idHash :: "byte list"
  sender :: "byte list"

text \<open>The zero value of \<open>TxSlot\<close> (\<^verbatim>\<open>var slot TxSlot\<close>).\<close>

definition zeroSlot :: TxSlot where
  "zeroSlot =
     \<lparr> txId = 0, senderId = 0, nonce = 0, tip = 0, feeCap = 0, gas = 0, value = 0,
       creation = False, dataLen = 0, alAddrCount = 0, alStorCount = 0, bestIdx = 0,
       worstIdx = 0, local = False, idHash = replicate 32 0, sender = replicate 20 0 \<rparr>"

subsection \<open>Go primitives: indexing, slicing, machine integers\<close>

text \<open>\<open>payload[i]\<close>: panics unless \<open>0 \<le> i < len(payload)\<close>.\<close>

definition index :: "byte list \<Rightarrow> int \<Rightarrow> error + byte" where
  "index payload i =
     (if 0 \<le> i \<and> i < int (length payload) then Inr (payload ! nat i) else Inl Panic)"

text \<open>\<open>payload[lo:hi]\<close>: panics unless \<open>0 \<le> lo \<le> hi \<le> cap(payload)\<close>.\<close>

definition slice :: "byte list \<Rightarrow> int \<Rightarrow> int \<Rightarrow> error + byte list" where
  "slice payload lo hi =
     (if 0 \<le> lo \<and> lo \<le> hi \<and> hi \<le> int (length payload)
      then Inr (take (nat (hi - lo)) (drop (nat lo) payload)) else Inl Panic)"

text \<open>Wrap-around of a signed 64-bit \<open>int\<close> and of an unsigned 64-bit \<open>uint\<close>.\<close>

definition int64 :: "int \<Rightarrow> int" where
  "int64 x = signed_take_bit 63 x"

definition uint64 :: "int \<Rightarrow> nat" where
  "uint64 x = nat (take_bit 64 x)"

subsection \<open>RLP primitives\<close>

text \<open>
  \<open>beInt\<close>: the leading-zero test reads \<open>payload[pos]\<close>; its error message formats
  \<open>payload[pos:pos+length]\<close>, and the loop ranges over the same slice.
\<close>

definition beInt :: "byte list \<Rightarrow> int \<Rightarrow> int \<Rightarrow> error + int" where
  "beInt payload pos len =
     (case (if len > 0 then index payload pos else Inr 1) of
        Inl e \<Rightarrow> Inl e
      | Inr b0 \<Rightarrow>
          (case slice payload pos (pos + len) of
             Inl e \<Rightarrow> Inl e
           | Inr bs \<Rightarrow>
               if len > 0 \<and> b0 = 0
               then Inl (Errorf ''integer encoding for RLP must not have leading zeros: %x'')
               else Inr (foldl (\<lambda>r b. int64 (push_bit 8 r) OR uint b) 0 bs)))"

definition prefix :: "byte list \<Rightarrow> int \<Rightarrow> error + (int \<times> int \<times> bool)" where
  "prefix payload pos =
     (case index payload pos of
        Inl e \<Rightarrow> Inl e
      | Inr first \<Rightarrow>
          if first < 128 then Inr (pos, 1, False)
          else if first < 184 then Inr (pos + 1, uint first - 128, False)
          else if first < 192 then
            (case beInt payload (pos + 1) (uint first - 183) of
               Inl e \<Rightarrow> Inl e
             | Inr dLen \<Rightarrow> Inr (pos + 1 + (uint first - 183), dLen, False))
          else if first < 248 then Inr (pos + 1, uint first - 192, True)
          else
            (case beInt payload (pos + 1) (uint first - 247) of
               Inl e \<Rightarrow> Inl e
             | Inr dLen \<Rightarrow> Inr (pos + 1 + (uint first - 247), dLen, True)))"

definition parseUint64 :: "byte list \<Rightarrow> int \<Rightarrow> error + (int \<times> 64 word)" where
  "parseUint64 payload pos =
     (case prefix payload pos of
        Inl e \<Rightarrow> Inl e
      | Inr (dPos, dLen, list) \<Rightarrow>
          if list then Inl (Errorf ''uint64 must be a string, not list'')
          else if int64 (dPos + dLen) \<ge> int (length payload)
          then Inl (Errorf ''unexpected end of payload'')
          else if dLen > 8
          then Inl (Errorf ''uint64 must not be more than 8 bytes long, got %d'')
          else
            (case (if dLen > 0 then index payload dPos else Inr 1) of
               Inl e \<Rightarrow> Inl e
             | Inr b0 \<Rightarrow>
                 (case slice payload dPos (int64 (dPos + dLen)) of
                    Inl e \<Rightarrow> Inl e
                  | Inr bs \<Rightarrow>
                      if dLen > 0 \<and> b0 = 0
                      then Inl (Errorf ''integer encoding for RLP must not have leading zeros: %x'')
                      else Inr (int64 (dPos + dLen),
                                foldl (\<lambda>r b. push_bit 8 r OR ucast b) 0 bs))))"

text \<open>\<open>x.SetBytes\<close>: the big-endian value of at most 32 bytes.\<close>

definition SetBytes :: "byte list \<Rightarrow> 256 word" where
  "SetBytes bs = foldl (\<lambda>r b. push_bit 8 r OR ucast b) 0 bs"

definition parseUint256 :: "byte list \<Rightarrow> int \<Rightarrow> error + (int \<times> 256 word)" where
  "parseUint256 payload pos =
     (case prefix payload pos of
        Inl e \<Rightarrow> Inl e
      | Inr (dPos, dLen, list) \<Rightarrow>
          if list then Inl (Errorf ''uint256 must be a string, not list'')
          else if int64 (dPos + dLen) > int (length payload)
          then Inl (Errorf ''unexpected end of payload'')
          else if dLen > 32
          then Inl (Errorf ''uint256 must not be more than 8 bytes long, got %d'')
          else
            (case (if dLen > 0 then index payload dPos else Inr 1) of
               Inl e \<Rightarrow> Inl e
             | Inr b0 \<Rightarrow>
                 (case slice payload dPos (int64 (dPos + dLen)) of
                    Inl e \<Rightarrow> Inl e
                  | Inr bs \<Rightarrow>
                      if dLen > 0 \<and> b0 = 0
                      then Inl (Errorf ''integer encoding for RLP must not have leading zeros: %x'')
                      else Inr (int64 (dPos + dLen), SetBytes bs))))"

subsection \<open>Fields of the transaction body\<close>

text \<open>Lines 228--240: the chain id of a typed transaction is skipped.\<close>

definition chainIdField :: "byte list \<Rightarrow> int \<Rightarrow> error + int" where
  "chainIdField payload p =
     (case prefix payload p of
        Inl e \<Rightarrow> Inl (wrapf ''%s: chainId len: %w'' e)
      | Inr (dPos, dLen, list) \<Rightarrow>
          if list then Inl (Errorf ''%s: chainId must be a string, not list'')
          else if int64 (dPos + dLen) \<ge> int (length payload)
          then Inl (Errorf ''%s: unexpected end of payload after chainId'')
          else Inr (int64 (dPos + dLen)))"

text \<open>
  Lines 252--262: the fee cap is the tip unless \<open>txType\<close> is at least
  \<open>DynamicFeeTxType = 2\<close>; the result is the cursor and \<open>slot.feeCap\<close>.
\<close>

definition feeCapField :: "byte list \<Rightarrow> int \<Rightarrow> int \<Rightarrow> 64 word \<Rightarrow> error + (int \<times> 64 word)" where
  "feeCapField payload p txType t =
     (if txType < 2 then Inr (p, t)
      else (case parseUint64 payload p of
              Inl e \<Rightarrow> Inl (wrapf ''%s: feeCap: %w'' e)
            | Inr pf \<Rightarrow> Inr pf))"

text \<open>Lines 268--284: the destination; the result is the cursor and \<open>slot.creation\<close>.\<close>

definition toField :: "byte list \<Rightarrow> int \<Rightarrow> error + (int \<times> bool)" where
  "toField payload p =
     (case prefix payload p of
        Inl e \<Rightarrow> Inl (wrapf ''%s: to len: %w'' e)
      | Inr (dPos, dLen, list) \<Rightarrow>
          if list then Inl (Errorf ''%s: to must be a string, not list'')
          else if int64 (dPos + dLen) \<ge> int (length payload)
          then Inl (Errorf ''%s: unexpected end of payload after to'')
          else if dLen \<noteq> 0 \<and> dLen \<noteq> 20
          then Inl (Errorf ''%s: unexpected length of to field: %d'')
          else Inr (int64 (dPos + dLen), dLen = 0))"

text \<open>Lines 290--302: the call data; the result is the cursor and \<open>slot.dataLen\<close>.\<close>

definition dataField :: "byte list \<Rightarrow> int \<Rightarrow> error + (int \<times> int)" where
  "dataField payload p =
     (case prefix payload p of
        Inl e \<Rightarrow> Inl (wrapf ''%s: data len: %w'' e)
      | Inr (dPos, dLen, list) \<Rightarrow>
          if list then Inl (Errorf ''%s: data must be a string, not list'')
          else if int64 (dPos + dLen) \<ge> int (length payload)
          then Inl (Errorf ''%s: unexpected end of payload after data'')
          else Inr (int64 (dPos + dLen), dLen))"

text \<open>
  Lines 356--372: the loop over the storage keys of one tuple. The bound
  \<open>storagePos+storageLen\<close> is recomputed at every test, as in the source; \<open>cnt\<close> is
  \<open>slot.alStorCount\<close>. The result is the final \<open>skeyPos\<close> and count; \<open>None\<close> stands for
  a loop that does not end.
\<close>

partial_function (option) storageKeys ::
  "byte list \<Rightarrow> int \<Rightarrow> int \<Rightarrow> int \<Rightarrow> int \<Rightarrow> (error + (int \<times> int)) option" where
  "storageKeys payload storagePos storageLen skeyPos cnt =
     (if skeyPos < int64 (storagePos + storageLen) then
        (case prefix payload skeyPos of
           Inl e \<Rightarrow> Some (Inl (wrapf ''%s: tuple storage key len: %w'' e))
         | Inr (kPos, skeyLen, list) \<Rightarrow>
             if list then Some (Inl (Errorf ''%s: tuple storage key must be a string, not list''))
             else if int64 (kPos + skeyLen) > int64 (storagePos + storageLen)
             then Some (Inl (Errorf ''%s: unexpected end of tuple after storage key''))
             else if skeyLen \<noteq> 32
             then Some (Inl (Errorf ''%s: unexpected length of tuple storage key: %d''))
             else storageKeys payload storagePos storageLen (int64 (kPos + skeyLen)) (cnt + 1))
      else Some (Inr (skeyPos, cnt)))"

text \<open>
  Lines 317--377: the loop over the tuples of the access list; \<open>ac\<close> and \<open>sc\<close> are
  \<open>slot.alAddrCount\<close> and \<open>slot.alStorCount\<close>.
\<close>

partial_function (option) tuples ::
  "byte list \<Rightarrow> int \<Rightarrow> int \<Rightarrow> int \<Rightarrow> int \<Rightarrow> int \<Rightarrow> (error + (int \<times> int \<times> int)) option" where
  "tuples payload dPos dLen tuplePos ac sc =
     (if tuplePos < int64 (dPos + dLen) then
        (case prefix payload tuplePos of
           Inl e \<Rightarrow> Some (Inl (wrapf ''%s: tuple len: %w'' e))
         | Inr (tPos, tupleLen, list) \<Rightarrow>
             if \<not> list then Some (Inl (Errorf ''%s: tuple must be a list, not string''))
             else if int64 (tPos + tupleLen) > int64 (dPos + dLen)
             then Some (Inl (Errorf ''%s: unexpected end of access list after tuple''))
             else
               (case prefix payload tPos of
                  Inl e \<Rightarrow> Some (Inl (wrapf ''%s: tuple addr len: %w'' e))
                | Inr (addrPos, addrLen, list) \<Rightarrow>
                    if list then Some (Inl (Errorf ''%s: tuple addr must be a string, not list''))
                    else if int64 (addrPos + addrLen) > int64 (tPos + tupleLen)
                    then Some (Inl (Errorf ''%s: unexpected end of tuple after address ''))
                    else if addrLen \<noteq> 20
                    then Some (Inl (Errorf ''%s: unexpected length of tuple address: %d''))
                    else
                      (case prefix payload (int64 (addrPos + addrLen)) of
                         Inl e \<Rightarrow> Some (Inl (wrapf ''%s: storage key list len: %w'' e))
                       | Inr (storagePos, storageLen, list) \<Rightarrow>
                           if \<not> list
                           then Some (Inl (Errorf ''%s: storage key list must be a list, not string''))
                           else if int64 (storagePos + storageLen) > int64 (tPos + tupleLen)
                           then Some (Inl (Errorf ''%s: unexpected end of tuple after storage key list''))
                           else
                             (case storageKeys payload storagePos storageLen storagePos sc of
                                None \<Rightarrow> None
                              | Some (Inl e) \<Rightarrow> Some (Inl e)
                              | Some (Inr (skeyPos, sc')) \<Rightarrow>
                                  if skeyPos \<noteq> int64 (storagePos + storageLen)
                                  then Some (Inl (Errorf
                                    ''%s: extraneous space in the tuple after storage key list''))
                                  else tuples payload dPos dLen (int64 (tPos + tupleLen))
                                         (ac + 1) sc'))))
      else Some (Inr (tuplePos, ac, sc)))"

text \<open>
  Lines 304--382: the access list of a typed transaction; the result is the cursor,
  \<open>slot.alAddrCount\<close> and \<open>slot.alStorCount\<close>.
\<close>

definition accessList :: "byte list \<Rightarrow> int \<Rightarrow> (error + (int \<times> int \<times> int)) option" where
  "accessList payload p =
     (case prefix payload p of
        Inl e \<Rightarrow> Some (Inl (wrapf ''%s: access list len: %w'' e))
      | Inr (dPos, dLen, list) \<Rightarrow>
          if \<not> list then Some (Inl (Errorf ''%s: access list must be a list, not string''))
          else if int64 (dPos + dLen) \<ge> int (length payload)
          then Some (Inl (Errorf ''%s: unexpected end of payload after access list''))
          else
            (case tuples payload dPos dLen dPos 0 0 of
               None \<Rightarrow> None
             | Some (Inl e) \<Rightarrow> Some (Inl e)
             | Some (Inr (tuplePos, ac, sc)) \<Rightarrow>
                 if tuplePos \<noteq> int64 (dPos + dLen)
                 then Some (Inl (Errorf
                   ''%s: extraneous space in the access list after all tuples''))
                 else Some (Inr (int64 (dPos + dLen), ac, sc))))"

text \<open>
  Lines 226--382: from the chain id to the access list. No field of the context is
  written in this range; the result is the descriptor filled so far and the cursor.
  \<open>txType\<close> is \<open>0\<close> for a legacy transaction.
\<close>

definition walkFields ::
  "byte list \<Rightarrow> int \<Rightarrow> bool \<Rightarrow> int \<Rightarrow> (error + (TxSlot \<times> int)) option" where
  "walkFields payload p legacy txType =
     (case (if \<not> legacy then chainIdField payload p else Inr p) of
        Inl e \<Rightarrow> Some (Inl e)
      | Inr p1 \<Rightarrow>
     (case parseUint64 payload p1 of
        Inl e \<Rightarrow> Some (Inl (wrapf ''%s: nonce: %w'' e))
      | Inr (p2, n) \<Rightarrow>
     (case parseUint64 payload p2 of
        Inl e \<Rightarrow> Some (Inl (wrapf ''%s: tip: %w'' e))
      | Inr (p3, t) \<Rightarrow>
     (case feeCapField payload p3 txType t of
        Inl e \<Rightarrow> Some (Inl e)
      | Inr (p4, f) \<Rightarrow>
     (case parseUint64 payload p4 of
        Inl e \<Rightarrow> Some (Inl (wrapf ''%s: gas: %w'' e))
      | Inr (p5, g) \<Rightarrow>
     (case toField payload p5 of
        Inl e \<Rightarrow> Some (Inl e)
      | Inr (p6, c) \<Rightarrow>
     (case parseUint256 payload p6 of
        Inl e \<Rightarrow> Some (Inl (wrapf ''%s: value: %w'' e))
      | Inr (p7, val) \<Rightarrow>
     (case dataField payload p7 of
        Inl e \<Rightarrow> Some (Inl e)
      | Inr (p8, dl) \<Rightarrow>
     (case (if \<not> legacy then accessList payload p8 else Some (Inr (p8, 0, 0))) of
        None \<Rightarrow> None
      | Some (Inl e) \<Rightarrow> Some (Inl e)
      | Some (Inr (p9, ac, sc)) \<Rightarrow>
          Some (Inr (zeroSlot\<lparr> nonce := n, tip := t, feeCap := f, gas := g, creation := c,
                      value := val, dataLen := dl, alAddrCount := ac, alStorCount := sc \<rparr>,
                     p9)))))))))))"

subsection \<open>The typed envelope\<close>

text \<open>
  Lines 197--224: the type byte is written to both accumulators, the inner list to the
  first. The result is \<open>txType\<close> and the cursor at the first field.
\<close>

definition typedEnvelope ::
  "TxParseContext \<Rightarrow> byte list \<Rightarrow> int \<Rightarrow> (error + (int \<times> int)) \<times> TxParseContext" where
  "typedEnvelope ctx payload p =
     (case index payload p of
        Inl e \<Rightarrow> (Inl e, ctx)
      | Inr ty \<Rightarrow>
          (let ctx1 = ctx\<lparr> keccak1 := keccak1 ctx @ [ty], keccak2 := keccak2 ctx @ [ty] \<rparr> in
           if p + 1 \<ge> int (length payload)
           then (Inl (Errorf ''%s: unexpected end of payload after txType''), ctx1)
           else
             (case prefix payload (p + 1) of
                Inl e \<Rightarrow> (Inl (wrapf ''%s: envelope prefix: %v'' e), ctx1)
              | Inr (dPos, dLen, list) \<Rightarrow>
                  if \<not> list
                  then (Inl (Errorf ''%s: envelope must be a list, not string''), ctx1)
                  else if int64 (dPos + dLen) > int (length payload)
                  then (Inl (Errorf ''%s: unexpected end of payload after envelope''), ctx1)
                  else
                    (case slice payload (p + 1) (int64 (dPos + dLen)) of
                       Inl e \<Rightarrow> (Inl e, ctx1)
                     | Inr bs \<Rightarrow>
                         (Inr (uint ty, dPos), ctx1\<lparr> keccak1 := keccak1 ctx1 @ bs \<rparr>)))))"

subsection \<open>The signature\<close>

text \<open>\<open>BitLen\<close> of \<open>uint256\<close> and \<open>bits.Len\<close>: the length of the binary numeral.\<close>

fun bitLen :: "nat \<Rightarrow> nat" where
  "bitLen n = (if n = 0 then 0 else Suc (bitLen (n div 2)))"

declare bitLen.simps [simp del]

text \<open>
  Lines 385--421: \<open>V\<close>. The result is the cursor, \<open>vByte\<close>, \<open>sigHashLen\<close>,
  \<open>chainIdBits\<close> and \<open>chainIdLen\<close>. A legacy \<open>V\<close> is stored in \<open>ctx.v\<close>, where it is
  replaced by the chain id unless it is 27 or 28.
\<close>

definition sigV ::
  "TxParseContext \<Rightarrow> byte list \<Rightarrow> int \<Rightarrow> bool \<Rightarrow> nat \<Rightarrow>
     (error + (int \<times> byte \<times> nat \<times> nat \<times> nat)) \<times> TxParseContext" where
  "sigV ctx payload p legacy sigHashLen =
     (if legacy then
        (case parseUint256 payload p of
           Inl e \<Rightarrow> (Inl (wrapf ''%s: V: %w'' e), ctx)
         | Inr (p', x) \<Rightarrow>
             if x = n27 ctx \<or> x = n28 ctx
             then (Inr (p', ucast ((ucast x :: 64 word) AND 1), sigHashLen, 0, 0),
                   ctx\<lparr> ctx_v := x \<rparr>)
             else
               (let v1 = x - n35 ctx;
                    vByte = ucast ((ucast v1 :: 64 word) AND 1);
                    v2 = drop_bit 1 v1;
                    chainIdBits = bitLen (unat v2)
                in if chainIdBits \<le> 7
                   then (Inr (p', vByte, (sigHashLen + 1) mod 2 ^ 64, chainIdBits, 1),
                         ctx\<lparr> ctx_v := v2 \<rparr>)
                   else (Inr (p', vByte,
                              ((sigHashLen + 1) mod 2 ^ 64 + (chainIdBits + 7) div 8) mod 2 ^ 64,
                              chainIdBits, (chainIdBits + 7) div 8),
                         ctx\<lparr> ctx_v := v2 \<rparr>)))
      else
        (case parseUint64 payload p of
           Inl e \<Rightarrow> (Inl (wrapf ''%s: V: %w'' e), ctx)
         | Inr (p', x) \<Rightarrow>
             if x > 1 then (Inl (Errorf ''%s: V is loo large: %d''), ctx)
             else (Inr (p', ucast x, sigHashLen, 0, 0), ctx)))"

text \<open>Lines 422--431: \<open>R\<close> and \<open>S\<close>; the result is the cursor.\<close>

definition sigRS ::
  "TxParseContext \<Rightarrow> byte list \<Rightarrow> int \<Rightarrow> (error + int) \<times> TxParseContext" where
  "sigRS ctx payload p =
     (case parseUint256 payload p of
        Inl e \<Rightarrow> (Inl (wrapf ''%s: R: %w'' e), ctx)
      | Inr (p1, x) \<Rightarrow>
          (case parseUint256 payload p1 of
             Inl e \<Rightarrow> (Inl (wrapf ''%s: S: %w'' e), ctx\<lparr> ctx_r := x \<rparr>)
           | Inr (p2, y) \<Rightarrow> (Inr p2, ctx\<lparr> ctx_r := x, ctx_s := y \<rparr>)))"

subsection \<open>The hash composer\<close>

text \<open>\<open>binary.BigEndian.PutUint64(b[off:], x)\<close> and the limb \<open>x[i]\<close> of a \<open>uint256\<close>.\<close>

definition PutUint64 :: "byte list \<Rightarrow> nat \<Rightarrow> 64 word \<Rightarrow> byte list" where
  "PutUint64 b off x =
     b[off := ucast (drop_bit 56 x), off + 1 := ucast (drop_bit 48 x),
       off + 2 := ucast (drop_bit 40 x), off + 3 := ucast (drop_bit 32 x),
       off + 4 := ucast (drop_bit 24 x), off + 5 := ucast (drop_bit 16 x),
       off + 6 := ucast (drop_bit 8 x), off + 7 := ucast x]"

definition limb :: "256 word \<Rightarrow> nat \<Rightarrow> 64 word" where
  "limb x i = ucast (drop_bit (64 * i) x)"

text \<open>Lines 441--453: the length prefix of the signing pre-image, through \<open>ctx.buf\<close>.\<close>

definition writeLenPrefix :: "TxParseContext \<Rightarrow> nat \<Rightarrow> TxParseContext" where
  "writeLenPrefix ctx sigHashLen =
     (if sigHashLen < 56 then
        (let b = (ctx_buf ctx)[0 := of_nat sigHashLen + 128] in
         ctx\<lparr> ctx_buf := b, keccak2 := keccak2 ctx @ take 1 b \<rparr>)
      else
        (let beLen = (bitLen sigHashLen + 7) div 8;
             b = (PutUint64 (ctx_buf ctx) 1 (of_nat sigHashLen))[8 - beLen := of_nat beLen + 183]
         in ctx\<lparr> ctx_buf := b,
                 keccak2 := keccak2 ctx @ take (9 - (8 - beLen)) (drop (8 - beLen) b) \<rparr>))"

text \<open>Lines 454--472: the chain id of a legacy transaction, through \<open>ctx.buf\<close>.\<close>

definition writeChainId :: "TxParseContext \<Rightarrow> bool \<Rightarrow> nat \<Rightarrow> nat \<Rightarrow> TxParseContext" where
  "writeChainId ctx legacy chainIdBits chainIdLen =
     (if legacy \<and> chainIdLen > 0 then
        (if chainIdBits \<le> 7 then
           (let b = (ctx_buf ctx)[0 := ucast (ucast (ctx_v ctx) :: 64 word)] in
            ctx\<lparr> ctx_buf := b, keccak2 := keccak2 ctx @ take 1 b \<rparr>)
         else
           (let b = (PutUint64 (PutUint64 (PutUint64 (PutUint64 (ctx_buf ctx)
                      1 (limb (ctx_v ctx) 3)) 9 (limb (ctx_v ctx) 2))
                      17 (limb (ctx_v ctx) 1)) 25 (limb (ctx_v ctx) 0))
                    [32 - chainIdLen := 128 + of_nat chainIdLen]
            in ctx\<lparr> ctx_buf := b,
                    keccak2 := keccak2 ctx
                      @ take (33 - (32 - chainIdLen)) (drop (32 - chainIdLen) b) \<rparr>))
      else ctx)"

text \<open>Lines 478--486: the 65-byte signature blob.\<close>

definition packSig :: "TxParseContext \<Rightarrow> byte \<Rightarrow> TxParseContext" where
  "packSig ctx vByte =
     ctx\<lparr> sig :=
       (PutUint64 (PutUint64 (PutUint64 (PutUint64
        (PutUint64 (PutUint64 (PutUint64 (PutUint64 (sig ctx)
          0 (limb (ctx_r ctx) 3)) 8 (limb (ctx_r ctx) 2))
          16 (limb (ctx_r ctx) 1)) 24 (limb (ctx_r ctx) 0))
          32 (limb (ctx_s ctx) 3)) 40 (limb (ctx_s ctx) 2))
          48 (limb (ctx_s ctx) 1)) 56 (limb (ctx_s ctx) 0))
       [64 := vByte] \<rparr>"

text \<open>
  Lines 432--487. \<open>Sum\<close> appends the digest of what the accumulator has absorbed and
  leaves the accumulator as it is.
\<close>

definition composeHashes ::
  "(byte list \<Rightarrow> byte list) \<Rightarrow> TxParseContext \<Rightarrow> byte list \<Rightarrow> int \<Rightarrow> int \<Rightarrow> bool \<Rightarrow>
     int \<Rightarrow> int \<Rightarrow> nat \<Rightarrow> nat \<Rightarrow> nat \<Rightarrow> byte \<Rightarrow> TxSlot \<Rightarrow>
     (error + (TxSlot \<times> int)) \<times> TxParseContext" where
  "composeHashes K ctx payload pos p legacy sigHashPos sigHashEnd sigHashLen
       chainIdBits chainIdLen vByte slot =
     (case (if legacy then slice payload pos p else Inr []) of
        Inl e \<Rightarrow> (Inl e, ctx)
      | Inr whole \<Rightarrow>
          (let ctx1 = ctx\<lparr> keccak1 := keccak1 ctx @ whole \<rparr>;
               slot1 = slot\<lparr> idHash := K (keccak1 ctx1) \<rparr>;
               ctx2 = writeLenPrefix ctx1 sigHashLen;
               ctx3 = writeChainId ctx2 legacy chainIdBits chainIdLen
           in case slice payload sigHashPos sigHashEnd of
                Inl e \<Rightarrow> (Inl e, ctx3)
              | Inr body \<Rightarrow>
                  (let ctx4 = ctx3\<lparr> keccak2 := keccak2 ctx3 @ body \<rparr>;
                       ctx5 = ctx4\<lparr> sighash := K (keccak2 ctx4) \<rparr>
                   in (Inr (slot1, p), packSig ctx5 vByte))))"

subsection \<open>ParseTransaction\<close>

text \<open>Lines 383--487: from the end of the signed fields to the return.\<close>

definition signatureAndHashes ::
  "(byte list \<Rightarrow> byte list) \<Rightarrow> TxParseContext \<Rightarrow> byte list \<Rightarrow> int \<Rightarrow> bool \<Rightarrow>
     int \<Rightarrow> int \<Rightarrow> TxSlot \<Rightarrow> (error + (TxSlot \<times> int)) \<times> TxParseContext" where
  "signatureAndHashes K ctx payload pos legacy sigHashPos sigHashEnd slot =
     (case sigV ctx payload sigHashEnd legacy (uint64 (sigHashEnd - sigHashPos)) of
        (Inl e, ctx1) \<Rightarrow> (Inl e, ctx1)
      | (Inr (p1, vByte, sigHashLen, chainIdBits, chainIdLen), ctx1) \<Rightarrow>
          (case sigRS ctx1 payload p1 of
             (Inl e, ctx2) \<Rightarrow> (Inl e, ctx2)
           | (Inr p2, ctx2) \<Rightarrow>
               composeHashes K ctx2 payload pos p2 legacy sigHashPos sigHashEnd sigHashLen
                 chainIdBits chainIdLen vByte slot))"

text \<open>
  The result is the pair of what the call returns (an error or a panic, or the
  descriptor and the end cursor) and the context as the call leaves it.
\<close>

definition ParseTransaction ::
  "(byte list \<Rightarrow> byte list) \<Rightarrow> TxParseContext \<Rightarrow> byte list \<Rightarrow> int \<Rightarrow>
     ((error + (TxSlot \<times> int)) \<times> TxParseContext) option" where
  "ParseTransaction K ctx payload pos =
     (if length payload = 0 then Some (Inl (Errorf ''%s: empty rlp''), ctx)
      else
        (let ctx0 = ctx\<lparr> keccak1 := [] \<rparr> in
         case prefix payload pos of
           Inl e \<Rightarrow> Some (Inl (wrapf ''%s: size prefix: %v'' e), ctx0)
         | Inr (dPos, dLen, legacy) \<Rightarrow>
             if int64 (dPos + dLen) \<noteq> int (length payload)
             then Some (Inl (Errorf ''%s: transaction must be either 1 list or 1 string''), ctx0)
             else
               (case (if \<not> legacy then typedEnvelope ctx0 payload dPos
                      else (Inr (0, dPos), ctx0)) of
                  (Inl e, ctx1) \<Rightarrow> Some (Inl e, ctx1)
                | (Inr (txType, p), ctx1) \<Rightarrow>
                    (case walkFields payload p legacy txType of
                       None \<Rightarrow> None
                     | Some (Inl e) \<Rightarrow> Some (Inl e, ctx1)
                     | Some (Inr (slot, sigHashEnd)) \<Rightarrow>
                         Some (signatureAndHashes K ctx1 payload pos legacy p sigHashEnd slot)))))"

text \<open>Readings of a call's outcome, used to state the properties below.\<close>

definition endCursor ::
  "((error + (TxSlot \<times> int)) \<times> TxParseContext) option \<Rightarrow> int option" where
  "endCursor res = (case res of Some (Inr (slot, p), c) \<Rightarrow> Some p | _ \<Rightarrow> None)"

definition descriptor ::
  "((error + (TxSlot \<times> int)) \<times> TxParseContext) option \<Rightarrow> TxSlot option" where
  "descriptor res = (case res of Some (Inr (slot, p), c) \<Rightarrow> Some slot | _ \<Rightarrow> None)"

definition failure ::
  "((error + (TxSlot \<times> int)) \<times> TxParseContext) option \<Rightarrow> error option" where
  "failure res = (case res of Some (Inl e, c) \<Rightarrow> Some e | _ \<Rightarrow> None)"

definition parityByte ::
  "((error + (TxSlot \<times> int)) \<times> TxParseContext) option \<Rightarrow> byte option" where
  "parityByte res = (case res of Some (Inr x, c) \<Rightarrow> Some (sig c ! 64) | _ \<Rightarrow> None)"

text \<open>
  What the second accumulator has absorbed when a successful call returns, and the
  digest \<open>ctx.sighash\<close> squeezed from it.
\<close>

definition sigHashStream ::
  "((error + (TxSlot \<times> int)) \<times> TxParseContext) option \<Rightarrow> byte list option" where
  "sigHashStream res = (case res of Some (Inr x, c) \<Rightarrow> Some (keccak2 c) | _ \<Rightarrow> None)"

definition sigHashOf ::
  "((error + (TxSlot \<times> int)) \<times> TxParseContext) option \<Rightarrow> byte list option" where
  "sigHashOf res = (case res of Some (Inr x, c) \<Rightarrow> Some (sighash c) | _ \<Rightarrow> None)"

text \<open>
  Two calls in succession on the same buffer and the same, reused context. Each call's
  outputs are what it returns, \<open>ctx.sighash\<close> and \<open>ctx.sig\<close>.
\<close>

definition ParseTwice ::
  "(byte list \<Rightarrow> byte list) \<Rightarrow> TxParseContext \<Rightarrow> byte list \<Rightarrow> int \<Rightarrow>
     (((error + (TxSlot \<times> int)) \<times> byte list \<times> byte list) \<times>
      ((error + (TxSlot \<times> int)) \<times> byte list \<times> byte list)) option" where
  "ParseTwice K ctx payload pos =
     (case ParseTransaction K ctx payload pos of
        None \<Rightarrow> None
      | Some (r1, ctx1) \<Rightarrow>
          (case ParseTransaction K ctx1 payload pos of
             None \<Rightarrow> None
           | Some (r2, ctx2) \<Rightarrow>
               Some ((r1, sighash ctx1, sig ctx1), (r2, sighash ctx2, sig ctx2))))"





section \<open>Properties\<close>

subsection \<open>Evaluation\<close>

text \<open>
  The equations by which the kernel evaluates a call on a concrete buffer. In closed
  statements the digest parameter is the identity, so that a hash shows its pre-image.
\<close>

lemma replicate_numeral: "replicate (numeral k) x = x # replicate (pred_numeral k) x"
  by (simp add: numeral_eq_Suc)

lemmas prim_defs = index_def slice_def int64_def uint64_def beInt_def prefix_def
  parseUint64_def parseUint256_def SetBytes_def wrapf_def

lemmas walk_defs = chainIdField_def feeCapField_def toField_def dataField_def accessList_def
  walkFields_def typedEnvelope_def sigV_def sigRS_def signatureAndHashes_def ParseTransaction_def

lemmas hash_defs = PutUint64_def limb_def writeLenPrefix_def writeChainId_def packSig_def
  composeHashes_def bitLen.simps

lemmas read_defs = endCursor_def descriptor_def failure_def parityByte_def
  sigHashStream_def sigHashOf_def ParseTwice_def

lemmas eval_defs = prim_defs walk_defs hash_defs read_defs Let_def NewTxParseContext_def
  zeroSlot_def replicate_numeral tuples.simps storageKeys.simps

lemma endCursor_Some:
  assumes "endCursor res = Some p"
  obtains slot c where "res = Some (Inr (slot, p), c)"
  using assms by (auto simp: endCursor_def split: option.splits sum.splits prod.splits)

text \<open>
  A smallest legacy transaction: every field is the empty string, \<open>V\<close> is 27. It is
  accepted with the end cursor at the end of the buffer.
\<close>

lemma minimal_legacy_accepted:
  "endCursor (ParseTransaction id NewTxParseContext
     [0xc9, 0x80, 0x80, 0x80, 0x80, 0x80, 0x80, 0x1b, 0x80, 0x80] 0) = Some 10"
  by (simp add: eval_defs)

subsection \<open>Reading inside a longer buffer\<close>

lemma index_append: "index buf i = Inr b \<Longrightarrow> index (buf @ extra) i = Inr b"
  by (auto simp: index_def nth_append split: if_splits)

lemma slice_append: "slice buf lo hi = Inr bs \<Longrightarrow> slice (buf @ extra) lo hi = Inr bs"
  by (auto simp: slice_def split: if_splits)

lemma beInt_append:
  assumes "beInt buf pos n = Inr x"
  shows "beInt (buf @ extra) pos n = Inr x"
proof -
  from assms obtain b0 bs where
    i: "(if n > 0 then index buf pos else Inr 1) = Inr b0" and
    s: "slice buf pos (pos + n) = Inr bs"
    by (auto simp: beInt_def split: sum.splits)
  from i have i': "(if n > 0 then index (buf @ extra) pos else Inr 1) = Inr b0"
    by (auto split: if_splits intro: index_append)
  from s have s': "slice (buf @ extra) pos (pos + n) = Inr bs"
    by (rule slice_append)
  from assms show ?thesis
    unfolding beInt_def i s i' s' by simp
qed

lemma prefix_append:
  assumes "prefix buf pos = Inr x"
  shows "prefix (buf @ extra) pos = Inr x"
proof -
  from assms obtain first where i: "index buf pos = Inr first"
    by (auto simp: prefix_def split: sum.splits)
  then have i': "index (buf @ extra) pos = Inr first"
    by (rule index_append)
  from assms show ?thesis
    unfolding prefix_def i i'
    by (auto split: if_splits sum.splits dest: beInt_append[where extra=extra])
qed

lemma prefix_out_of_range:
  "pos < 0 \<or> pos \<ge> int (length payload) \<Longrightarrow> prefix payload pos = Inl Panic"
  by (auto simp: prefix_def index_def)

subsection \<open>What a successful call went through\<close>

lemma parseUint256_end:
  assumes "parseUint256 payload p = Inr (q, x)"
  shows "0 \<le> q \<and> q \<le> int (length payload)"
proof -
  from assms obtain dPos dLen lst where pre: "prefix payload p = Inr (dPos, dLen, lst)"
    by (cases "prefix payload p") (auto simp: parseUint256_def)
  from assms pre obtain bs where
    le: "\<not> int64 (dPos + dLen) > int (length payload)" and
    sl: "slice payload dPos (int64 (dPos + dLen)) = Inr bs" and
    q: "q = int64 (dPos + dLen)"
    by (auto simp: parseUint256_def split: if_splits sum.splits)
  from sl have "0 \<le> int64 (dPos + dLen)"
    by (auto simp: slice_def split: if_splits)
  with le q show ?thesis by simp
qed

lemma sigRS_Inr:
  assumes "sigRS ctx payload p = (Inr q, ctx')"
  shows "0 \<le> q \<and> q \<le> int (length payload)"
proof -
  from assms obtain p1 y where "parseUint256 payload p1 = Inr (q, y)"
    by (auto simp: sigRS_def split: sum.splits)
  then show ?thesis by (rule parseUint256_end)
qed

lemma composeHashes_Inr:
  assumes "composeHashes K ctx payload pos p legacy shp she shl cb cl vb slot
             = (Inr (slot', pe), ctx')"
  shows "pe = p \<and> (\<exists>h. slot' = slot\<lparr> idHash := h \<rparr>)"
  using assms
  by (auto simp: composeHashes_def Let_def split: sum.splits)

lemma signatureAndHashes_Inr:
  assumes "signatureAndHashes K ctx payload pos legacy shp she slot = (Inr (slot', pe), ctx')"
  shows "0 \<le> pe \<and> pe \<le> int (length payload) \<and> (\<exists>h. slot' = slot\<lparr> idHash := h \<rparr>)"
proof -
  from assms obtain c1 p1 vb shl cb cl c2 p2 where
    rs: "sigRS c1 payload p1 = (Inr p2, c2)" and
    ch: "composeHashes K c2 payload pos p2 legacy shp she shl cb cl vb slot
           = (Inr (slot', pe), ctx')"
    by (auto simp: signatureAndHashes_def split: sum.splits prod.splits)
  from sigRS_Inr[OF rs] composeHashes_Inr[OF ch] show ?thesis by auto
qed

lemma ParseTransaction_Inr:
  assumes "ParseTransaction K ctx payload pos = Some (Inr (slot, pe), ctx')"
  obtains dPos dLen legacy txType p ctx1 sl she where
    "payload \<noteq> []"
    "prefix payload pos = Inr (dPos, dLen, legacy)"
    "int64 (dPos + dLen) = int (length payload)"
    "(if \<not> legacy then typedEnvelope (ctx\<lparr> keccak1 := [] \<rparr>) payload dPos
      else (Inr (0, dPos), ctx\<lparr> keccak1 := [] \<rparr>)) = (Inr (txType, p), ctx1)"
    "walkFields payload p legacy txType = Some (Inr (sl, she))"
    "signatureAndHashes K ctx1 payload pos legacy p she sl = (Inr (slot, pe), ctx')"
proof -
  from assms have ne: "payload \<noteq> []"
    by (auto simp: ParseTransaction_def)
  from assms ne obtain dPos dLen legacy where
    pre: "prefix payload pos = Inr (dPos, dLen, legacy)"
    by (cases "prefix payload pos") (auto simp: ParseTransaction_def Let_def)
  from assms ne pre have span: "int64 (dPos + dLen) = int (length payload)"
    by (auto simp: ParseTransaction_def Let_def split: if_splits)
  let ?env = "if \<not> legacy then typedEnvelope (ctx\<lparr> keccak1 := [] \<rparr>) payload dPos
      else (Inr (0, dPos), ctx\<lparr> keccak1 := [] \<rparr>)"
  from assms ne pre span have rest:
    "(case ?env of
        (Inl e, ctx1) \<Rightarrow> Some (Inl e, ctx1)
      | (Inr (txType, p), ctx1) \<Rightarrow>
          (case walkFields payload p legacy txType of
             None \<Rightarrow> None
           | Some (Inl e) \<Rightarrow> Some (Inl e, ctx1)
           | Some (Inr (slot, sigHashEnd)) \<Rightarrow>
               Some (signatureAndHashes K ctx1 payload pos legacy p sigHashEnd slot)))
     = Some (Inr (slot, pe), ctx')"
    by (simp add: ParseTransaction_def Let_def)
  then obtain txType p ctx1 where env: "?env = (Inr (txType, p), ctx1)"
    by (cases ?env) (auto split: sum.splits)
  from rest obtain sl she where
    wf: "walkFields payload p legacy txType = Some (Inr (sl, she))" and
    sh: "signatureAndHashes K ctx1 payload pos legacy p she sl = (Inr (slot, pe), ctx')"
    unfolding env by (auto split: option.splits sum.splits)
  from ne pre span env wf sh show thesis by (rule that)
qed

text \<open>The end cursor of a successful call lies within the buffer.\<close>

lemma end_cursor_within_buffer:
  assumes "endCursor (ParseTransaction K ctx buf pos) = Some pe"
  shows "0 \<le> pe \<and> pe \<le> int (length buf) \<and>
         (\<exists>dPos dLen legacy. prefix buf pos = Inr (dPos, dLen, legacy) \<and>
            int64 (dPos + dLen) = int (length buf))"
proof -
  from assms obtain slot ctx' where
    ok: "ParseTransaction K ctx buf pos = Some (Inr (slot, pe), ctx')"
    by (rule endCursor_Some)
  then obtain ctx1 legacy p she sl dPos dLen where
    pre: "prefix buf pos = Inr (dPos, dLen, legacy)" and
    span: "int64 (dPos + dLen) = int (length buf)" and
    sh: "signatureAndHashes K ctx1 buf pos legacy p she sl = (Inr (slot, pe), ctx')"
    by (rule ParseTransaction_Inr)
  from signatureAndHashes_Inr[OF sh] pre span show ?thesis by simp
qed

subsection \<open>The stages of the walk\<close>

lemma walkFields_Inr:
  assumes "walkFields payload p legacy txType = Some (Inr (slot, p9))"
  obtains p1 p2 n p3 t p4 f p5 g p6 c p7 val p8 dl ac sc where
    "(if \<not> legacy then chainIdField payload p else Inr p) = Inr p1"
    "parseUint64 payload p1 = Inr (p2, n)"
    "parseUint64 payload p2 = Inr (p3, t)"
    "feeCapField payload p3 txType t = Inr (p4, f)"
    "parseUint64 payload p4 = Inr (p5, g)"
    "toField payload p5 = Inr (p6, c)"
    "parseUint256 payload p6 = Inr (p7, val)"
    "dataField payload p7 = Inr (p8, dl)"
    "(if \<not> legacy then accessList payload p8 else Some (Inr (p8, 0, 0)))
       = Some (Inr (p9, ac, sc))"
    "slot = zeroSlot\<lparr> nonce := n, tip := t, feeCap := f, gas := g, creation := c,
                      value := val, dataLen := dl, alAddrCount := ac, alStorCount := sc \<rparr>"
  using assms that unfolding walkFields_def
  by (auto split: sum.splits option.splits prod.splits)






lemma prefix_Inr_pos:
  assumes "prefix payload q = Inr (dPos, dLen, lst)"
  shows "0 \<le> q \<and> q < int (length payload) \<and> q \<le> dPos \<and> dPos \<le> q + 9"
proof -
  from assms obtain first where i: "index payload q = Inr first"
    by (auto simp: prefix_def split: sum.splits)
  then have r: "0 \<le> q \<and> q < int (length payload)"
    by (auto simp: index_def split: if_splits)
  have u: "uint first < 256"
    using uint_bounded[of first] by simp
  have l: "first < 248 \<Longrightarrow> uint first < 248" "\<not> first < 184 \<Longrightarrow> 184 \<le> uint first"
     "\<not> first < 248 \<Longrightarrow> 248 \<le> uint first" "first < 192 \<Longrightarrow> uint first < 192"
    by (simp_all add: word_less_def word_le_def not_less)
  from assms i u l have "q \<le> dPos \<and> dPos \<le> q + 9"
    by (auto simp: prefix_def split: if_splits sum.splits)
  with r show ?thesis by simp
qed


lemma descriptor_Some:
  assumes "descriptor res = Some slot"
  obtains p c where "res = Some (Inr (slot, p), c)"
  using assms by (auto simp: descriptor_def split: option.splits sum.splits prod.splits)

subsection \<open>The type byte\<close>

lemma feeCapField_layout:
  "feeCapField payload p txType t = feeCapField payload p (if txType < 2 then 1 else 2) t"
  by (simp add: feeCapField_def)

lemma walkFields_layout:
  "walkFields payload p legacy txType
     = walkFields payload p legacy (if txType < 2 then 1 else 2)"
  unfolding walkFields_def feeCapField_layout[of _ _ txType] ..

lemma walkFields_feeCap:
  assumes "walkFields payload p legacy txType = Some (Inr (sl, she))" and "txType < 2"
  shows "feeCap sl = tip sl"
proof -
  from assms(1) obtain p3 t p4 f n g c val dl ac sc where
    f: "feeCapField payload p3 txType t = Inr (p4, f)" and
    s: "sl = zeroSlot\<lparr> nonce := n, tip := t, feeCap := f, gas := g, creation := c,
                      value := val, dataLen := dl, alAddrCount := ac, alStorCount := sc \<rparr>"
    by (rule walkFields_Inr)
  from f assms(2) have "f = t" by (simp add: feeCapField_def)
  with s show ?thesis by simp
qed

text \<open>A typed transaction with the type byte \<open>0x00\<close> and tip 5: it is accepted.\<close>

lemma type0_accepted:
  "descriptor (ParseTransaction id NewTxParseContext
     [0x8d, 0x00, 0xcb, 0x80, 0x80, 0x05, 0x80, 0x80, 0x80, 0x80, 0xc0, 0x80, 0x80, 0x80] 0)
     = Some (zeroSlot\<lparr> tip := 5, feeCap := 5, creation := True,
          idHash := [0x00, 0xcb, 0x80, 0x80, 0x05, 0x80, 0x80, 0x80, 0x80, 0xc0,
                     0x80, 0x80, 0x80] \<rparr>)"
  by (simp add: eval_defs)

subsection \<open>Acceptance of a typed transaction, stage by stage\<close>

lemma typedEnvelope_Inr_iff:
  "typedEnvelope ctx payload p = (Inr (t, q), c) \<longleftrightarrow>
     (\<exists>ty eLen bs.
        index payload p = Inr ty \<and> p + 1 < int (length payload) \<and>
        prefix payload (p + 1) = Inr (q, eLen, True) \<and>
        int64 (q + eLen) \<le> int (length payload) \<and>
        slice payload (p + 1) (int64 (q + eLen)) = Inr bs \<and>
        t = uint ty \<and>
        c = ctx\<lparr> keccak1 := keccak1 ctx @ ty # bs, keccak2 := keccak2 ctx @ [ty] \<rparr>)"
  by (auto simp: typedEnvelope_def Let_def split: sum.splits if_splits prod.splits)

lemma sigV_typed:
  "sigV ctx payload p False shl = (Inr (q, vb, shl', cb, cl), c) \<longleftrightarrow>
     (\<exists>x. parseUint64 payload p = Inr (q, x) \<and> x \<le> 1 \<and> vb = ucast x \<and> shl' = shl \<and>
          cb = 0 \<and> cl = 0 \<and> c = ctx)"
  by (auto simp: sigV_def split: sum.splits if_splits prod.splits)

lemma sigRS_Inr_iff:
  "sigRS ctx payload p = (Inr q, c) \<longleftrightarrow>
     (\<exists>pr rr ss. parseUint256 payload p = Inr (pr, rr) \<and> parseUint256 payload pr = Inr (q, ss) \<and>
        c = ctx\<lparr> ctx_r := rr, ctx_s := ss \<rparr>)"
  by (auto simp: sigRS_def split: sum.splits if_splits prod.splits)

lemma writeLenPrefix_keccak1 [simp]: "keccak1 (writeLenPrefix c n) = keccak1 c"
  by (simp add: writeLenPrefix_def Let_def)

lemma writeChainId_keccak1 [simp]: "keccak1 (writeChainId c l cb cl) = keccak1 c"
  by (simp add: writeChainId_def Let_def)

lemma composeHashes_typed:
  "(\<exists>c'. composeHashes K c payload pos p False shp she shl cb cl vb sl = (Inr (slot, pe), c')) \<longleftrightarrow>
     (\<exists>body. slice payload shp she = Inr body) \<and> pe = p \<and> slot = sl\<lparr> idHash := K (keccak1 c) \<rparr>"
  by (auto simp: composeHashes_def Let_def split: sum.splits)

lemma signatureAndHashes_typed:
  "(\<exists>pe c'. signatureAndHashes K c payload pos False shp she sl = (Inr (slot, pe), c')) \<longleftrightarrow>
     (\<exists>pv x pr rr ps ss body.
        parseUint64 payload she = Inr (pv, x) \<and> x \<le> 1 \<and>
        parseUint256 payload pv = Inr (pr, rr) \<and>
        parseUint256 payload pr = Inr (ps, ss) \<and>
        slice payload shp she = Inr body \<and>
        slot = sl\<lparr> idHash := K (keccak1 c) \<rparr>)"
  (is "?L \<longleftrightarrow> ?R")
proof
  assume ?L
  then obtain pe c' where
    sh: "signatureAndHashes K c payload pos False shp she sl = (Inr (slot, pe), c')"
    by blast
  then obtain pv vb shl cb cl ca ps cb' where
    v: "sigV c payload she False (uint64 (she - shp)) = (Inr (pv, vb, shl, cb, cl), ca)" and
    rs: "sigRS ca payload pv = (Inr ps, cb')" and
    ch: "composeHashes K cb' payload pos ps False shp she shl cb cl vb sl = (Inr (slot, pe), c')"
    by (auto simp: signatureAndHashes_def split: sum.splits prod.splits)
  from v obtain x where x: "parseUint64 payload she = Inr (pv, x)" "x \<le> 1" "ca = c"
    unfolding sigV_typed by blast
  from rs obtain pr rr ss where
    r: "parseUint256 payload pv = Inr (pr, rr)" "parseUint256 payload pr = Inr (ps, ss)"
       "cb' = ca\<lparr> ctx_r := rr, ctx_s := ss \<rparr>"
    unfolding sigRS_Inr_iff by blast
  from ch have "\<exists>c'. composeHashes K cb' payload pos ps False shp she shl cb cl vb sl
      = (Inr (slot, pe), c')" ..
  then obtain body where
    b: "slice payload shp she = Inr body" "slot = sl\<lparr> idHash := K (keccak1 cb') \<rparr>"
    unfolding composeHashes_typed by blast
  from r(3) x(3) have "keccak1 cb' = keccak1 c" by simp
  with x r b show ?R by auto
next
  assume ?R
  then obtain pv x pr rr ps ss body where
    x: "parseUint64 payload she = Inr (pv, x)" "x \<le> 1" and
    r: "parseUint256 payload pv = Inr (pr, rr)" "parseUint256 payload pr = Inr (ps, ss)" and
    b: "slice payload shp she = Inr body" and
    s: "slot = sl\<lparr> idHash := K (keccak1 c) \<rparr>"
    by blast
  from x have v: "sigV c payload she False (uint64 (she - shp))
      = (Inr (pv, ucast x, uint64 (she - shp), 0, 0), c)"
    unfolding sigV_typed by simp
  from r have rs: "sigRS c payload pv = (Inr ps, c\<lparr> ctx_r := rr, ctx_s := ss \<rparr>)"
    unfolding sigRS_Inr_iff by simp
  from b s have "\<exists>c'. composeHashes K (c\<lparr> ctx_r := rr, ctx_s := ss \<rparr>) payload pos ps False
      shp she (uint64 (she - shp)) 0 0 (ucast x) sl = (Inr (slot, ps), c')"
    unfolding composeHashes_typed by simp
  then obtain c' where "composeHashes K (c\<lparr> ctx_r := rr, ctx_s := ss \<rparr>) payload pos ps False
      shp she (uint64 (she - shp)) 0 0 (ucast x) sl = (Inr (slot, ps), c')" ..
  then have "signatureAndHashes K c payload pos False shp she sl = (Inr (slot, ps), c')"
    by (simp add: signatureAndHashes_def v rs)
  then show ?L by blast
qed

subsection \<open>Rejection of items that are not canonical, stage by stage\<close>












































section \<open>The claims\<close>

text \<open>
  C10. Called with a non-empty payload and a starting position \<open>pos \<ge> len(payload)\<close>,
  \<open>ParseTransaction\<close> panics with an index out of range instead of returning an error:
  only \<open>len(payload) = 0\<close> is guarded, and \<open>prefix\<close> reads \<open>payload[pos]\<close> at once. The
  first accumulator has been reset by then.
\<close>

theorem ParseTransaction_panics_beyond_payload:
  assumes "payload \<noteq> []" and "pos \<ge> int (length payload)"
  shows "ParseTransaction K ctx payload pos = Some (Inl Panic, ctx\<lparr> keccak1 := [] \<rparr>)"
  using assms by (simp add: ParseTransaction_def prefix_out_of_range wrapf_def)

theorem ParseTransaction_panics_beyond_payload_witness:
  "[0xc0 :: byte] \<noteq> [] \<and> (1 :: int) \<ge> int (length [0xc0 :: byte]) \<and>
   ParseTransaction id NewTxParseContext [0xc0] 1
     = Some (Inl Panic, NewTxParseContext\<lparr> keccak1 := [] \<rparr>)"
  using ParseTransaction_panics_beyond_payload [of "[0xc0]" 1 id NewTxParseContext]
  by simp

text \<open>
  C8. When \<open>ParseTransaction\<close> accepts a buffer, it rejects the buffer followed by any
  non-empty byte sequence: the outer item no longer spans the whole buffer
  (\<open>dataPos + dataLen \<noteq> len\<close>).
\<close>

theorem trailing_bytes_rejected:
  assumes ok: "endCursor (ParseTransaction K ctx buf pos) = Some pe"
    and extra: "extra \<noteq> []"
  shows "ParseTransaction K ctx (buf @ extra) pos =
           Some (Inl (Errorf ''%s: transaction must be either 1 list or 1 string''),
                 ctx\<lparr> keccak1 := [] \<rparr>)"
proof -
  from ok obtain slot ctx' where
    "ParseTransaction K ctx buf pos = Some (Inr (slot, pe), ctx')"
    by (rule endCursor_Some)
  then obtain dPos dLen legacy where
    pre: "prefix buf pos = Inr (dPos, dLen, legacy)" and
    span: "int64 (dPos + dLen) = int (length buf)"
    by (rule ParseTransaction_Inr)
  from pre have pre': "prefix (buf @ extra) pos = Inr (dPos, dLen, legacy)"
    by (rule prefix_append)
  from span extra have "int64 (dPos + dLen) \<noteq> int (length (buf @ extra))"
    by simp
  with pre' extra show ?thesis
    by (simp add: ParseTransaction_def)
qed

theorem trailing_bytes_rejected_witness:
  "endCursor (ParseTransaction id NewTxParseContext
     [0xc9, 0x80, 0x80, 0x80, 0x80, 0x80, 0x80, 0x1b, 0x80, 0x80] 0) = Some 10 \<and>
   [0x00 :: byte] \<noteq> [] \<and>
   ParseTransaction id NewTxParseContext
     ([0xc9, 0x80, 0x80, 0x80, 0x80, 0x80, 0x80, 0x1b, 0x80, 0x80] @ [0x00]) 0 =
     Some (Inl (Errorf ''%s: transaction must be either 1 list or 1 string''),
           NewTxParseContext\<lparr> keccak1 := [] \<rparr>)"
  using trailing_bytes_rejected [OF minimal_legacy_accepted, of "[0x00]"]
    minimal_legacy_accepted
  by simp



text \<open>
  C5 at a legacy list of ten bytes whose last byte follows \<open>S\<close>, and at a typed
  transaction with one byte after \<open>S\<close> inside the inner list and one after it. Both
  are accepted, with the end cursor 10 of 11 and 14 of 16: the cursor is never compared
  with the end of the outer item. The legacy hash is the digest of \<open>payload[pos:p]\<close>,
  the first ten bytes, so that two buffers that differ in the last byte only have the
  same \<open>idHash\<close>.
\<close>

theorem slack_after_signature_accepted:
  "endCursor (ParseTransaction K NewTxParseContext
     [0xca, 0x80, 0x80, 0x80, 0x80, 0x80, 0x80, 0x1b, 0x80, 0x80, 0xff] 0) = Some 10 \<and>
   int (length [0xca, 0x80, 0x80, 0x80, 0x80, 0x80, 0x80, 0x1b, 0x80, 0x80, 0xff :: byte]) = 11 \<and>
   map_option idHash (descriptor (ParseTransaction K NewTxParseContext
     [0xca, 0x80, 0x80, 0x80, 0x80, 0x80, 0x80, 0x1b, 0x80, 0x80, 0xff] 0))
     = Some (K [0xca, 0x80, 0x80, 0x80, 0x80, 0x80, 0x80, 0x1b, 0x80, 0x80]) \<and>
   map_option idHash (descriptor (ParseTransaction K NewTxParseContext
     [0xca, 0x80, 0x80, 0x80, 0x80, 0x80, 0x80, 0x1b, 0x80, 0x80, 0x00] 0))
     = Some (K [0xca, 0x80, 0x80, 0x80, 0x80, 0x80, 0x80, 0x1b, 0x80, 0x80]) \<and>
   endCursor (ParseTransaction K NewTxParseContext
     [0x8f, 0x01, 0xcc, 0x80, 0x80, 0x80, 0x80, 0x80, 0x80, 0x80, 0xc0, 0x80, 0x80, 0x80,
      0xff, 0xff] 0) = Some 14 \<and>
   int (length [0x8f, 0x01, 0xcc, 0x80, 0x80, 0x80, 0x80, 0x80, 0x80, 0x80, 0xc0, 0x80, 0x80,
      0x80, 0xff, 0xff :: byte]) = 16"
  by (simp add: eval_defs)

text \<open>
  C6 at the buffer \<open>[0xb8]\<close> (and \<open>[0xf8]\<close> for the walker): the long-form prefix
  announces one length byte beyond the end of the buffer. \<open>beInt\<close> indexes it and the
  call panics; no error is returned.
\<close>

theorem truncated_long_prefix_panics:
  "prefix [0xb8] 0 = Inl Panic \<and> parseUint64 [0xb8] 0 = Inl Panic \<and>
   parseUint256 [0xb8] 0 = Inl Panic \<and>
   ParseTransaction K ctx [0xf8] 0 = Some (Inl Panic, ctx\<lparr> keccak1 := [] \<rparr>)"
  by (simp add: prim_defs ParseTransaction_def)

text \<open>
  C3 at \<open>V = 27\<close> and \<open>V = 28\<close>: the parity byte \<open>sig[64]\<close> is \<open>V & 1\<close>, that is 1 for
  27 and 0 for 28, where \<open>V - 27\<close> is 0 and 1. At \<open>V = 38\<close> the other branch gives
  \<open>(V - 35) & 1 = 1\<close>, and the chain id \<open>(V - 35) >> 1 = 1\<close> is left in \<open>ctx.v\<close>, as the
  claim says.
\<close>

theorem legacy_parity_of_v27_v28:
  "parityByte (ParseTransaction K NewTxParseContext
     [0xc9, 0x80, 0x80, 0x80, 0x80, 0x80, 0x80, 0x1b, 0x80, 0x80] 0) = Some 1 \<and>
   parityByte (ParseTransaction K NewTxParseContext
     [0xc9, 0x80, 0x80, 0x80, 0x80, 0x80, 0x80, 0x1c, 0x80, 0x80] 0) = Some 0 \<and>
   parityByte (ParseTransaction K NewTxParseContext
     [0xc9, 0x80, 0x80, 0x80, 0x80, 0x80, 0x80, 0x26, 0x80, 0x80] 0) = Some 1 \<and>
   map_option (ctx_v \<circ> snd) (ParseTransaction K NewTxParseContext
     [0xc9, 0x80, 0x80, 0x80, 0x80, 0x80, 0x80, 0x26, 0x80, 0x80] 0) = Some 1"
  by (simp add: eval_defs)

text \<open>
  C2 at a legacy transaction with \<open>V = 37\<close> (chain id 1) and six empty fields, \<open>L = 6\<close>.
  The stream fed to the second accumulator is the string prefix \<open>0x80 + 7\<close>, the chain
  id, then the six field bytes; the claim's stream is the list prefix \<open>0xc0 + 9\<close>, the six
  field bytes, the chain id, \<open>0x80\<close>, \<open>0x80\<close>.
\<close>

theorem eip155_signing_stream_as_computed:
  "sigHashStream (ParseTransaction K NewTxParseContext
     [0xc9, 0x80, 0x80, 0x80, 0x80, 0x80, 0x80, 0x25, 0x80, 0x80] 0)
     = Some [0x87, 0x01, 0x80, 0x80, 0x80, 0x80, 0x80, 0x80] \<and>
   sigHashOf (ParseTransaction K NewTxParseContext
     [0xc9, 0x80, 0x80, 0x80, 0x80, 0x80, 0x80, 0x25, 0x80, 0x80] 0)
     = Some (K [0x87, 0x01, 0x80, 0x80, 0x80, 0x80, 0x80, 0x80])"
  by (simp add: eval_defs)

text \<open>
  C1 at the smallest legacy transaction, parsed twice on a context that starts fresh.
  Both calls return the same descriptor and the same signature blob. The first
  \<open>sighash\<close> is the digest of the seven bytes of the signing stream; the second
  accumulator is not reset, so the second \<open>sighash\<close> is the digest of that stream
  twice over.
\<close>

theorem second_parse_hashes_both_streams:
  "ParseTwice K NewTxParseContext
     [0xc9, 0x80, 0x80, 0x80, 0x80, 0x80, 0x80, 0x1b, 0x80, 0x80] 0 =
   Some ((Inr (zeroSlot\<lparr> creation := True,
                  idHash := K [0xc9, 0x80, 0x80, 0x80, 0x80, 0x80, 0x80, 0x1b, 0x80, 0x80] \<rparr>, 10),
          K [0x86, 0x80, 0x80, 0x80, 0x80, 0x80, 0x80],
          replicate 64 0 @ [1]),
         (Inr (zeroSlot\<lparr> creation := True,
                  idHash := K [0xc9, 0x80, 0x80, 0x80, 0x80, 0x80, 0x80, 0x1b, 0x80, 0x80] \<rparr>, 10),
          K ([0x86, 0x80, 0x80, 0x80, 0x80, 0x80, 0x80]
             @ [0x86, 0x80, 0x80, 0x80, 0x80, 0x80, 0x80]),
          replicate 64 0 @ [1]))"
  by (simp add: eval_defs)




text \<open>
  C4, as the code has it. For an input whose outer item is a string, a descriptor is
  returned if and only if: the outer item spans the buffer; its first byte, the type
  byte, is followed by a list that ends within the buffer; the walk of the fields from
  the first byte of that list succeeds, with the access-list layout when the type byte
  is below 2 and with the dynamic-fee layout otherwise; \<open>V\<close> decodes to at most 1,
  \<open>R\<close> and \<open>S\<close> decode; and the signed range is a slice. The type byte enters these
  conditions through the comparison with 2 only, so no value of it is a reason for
  rejection. The descriptor is the one of the walk with \<open>idHash\<close> filled in, and
  \<open>feeCap = tip\<close> when the type byte is below 2.
\<close>

theorem typed_discriminant_selects_layout:
  assumes pre: "prefix payload pos = Inr (dPos, dLen, False)"
  shows "(descriptor (ParseTransaction K ctx payload pos) = Some slot \<longleftrightarrow>
            int64 (dPos + dLen) = int (length payload) \<and>
            (\<exists>ty ePos eLen bs sl she pv x pr rr ps ss body.
               index payload dPos = Inr ty \<and>
               dPos + 1 < int (length payload) \<and>
               prefix payload (dPos + 1) = Inr (ePos, eLen, True) \<and>
               int64 (ePos + eLen) \<le> int (length payload) \<and>
               slice payload (dPos + 1) (int64 (ePos + eLen)) = Inr bs \<and>
               walkFields payload ePos False (if ty < 2 then 1 else 2) = Some (Inr (sl, she)) \<and>
               parseUint64 payload she = Inr (pv, x) \<and> x \<le> 1 \<and>
               parseUint256 payload pv = Inr (pr, rr) \<and>
               parseUint256 payload pr = Inr (ps, ss) \<and>
               slice payload ePos she = Inr body \<and>
               slot = sl\<lparr> idHash := K (ty # bs) \<rparr> \<and>
               (ty < 2 \<longrightarrow> feeCap slot = tip slot)))"
  (is "?L \<longleftrightarrow> ?S \<and> ?R")
proof
  assume ?L
  then obtain pe ctx' where
    "ParseTransaction K ctx payload pos = Some (Inr (slot, pe), ctx')"
    by (rule descriptor_Some)
  then obtain aPos aLen legacy txType p ctxe sl she where
    pre': "prefix payload pos = Inr (aPos, aLen, legacy)" and
    span: "int64 (aPos + aLen) = int (length payload)" and
    env: "(if \<not> legacy then typedEnvelope (ctx\<lparr> keccak1 := [] \<rparr>) payload aPos
           else (Inr (0, aPos), ctx\<lparr> keccak1 := [] \<rparr>)) = (Inr (txType, p), ctxe)" and
    wf: "walkFields payload p legacy txType = Some (Inr (sl, she))" and
    sh: "signatureAndHashes K ctxe payload pos legacy p she sl = (Inr (slot, pe), ctx')"
    by (rule ParseTransaction_Inr)
  from pre pre' have eq: "aPos = dPos" "aLen = dLen" "legacy = False" by simp_all
  from env eq have "typedEnvelope (ctx\<lparr> keccak1 := [] \<rparr>) payload dPos
      = (Inr (txType, p), ctxe)" by simp
  then obtain ty eLen bs where
    e: "index payload dPos = Inr ty" "dPos + 1 < int (length payload)"
       "prefix payload (dPos + 1) = Inr (p, eLen, True)"
       "int64 (p + eLen) \<le> int (length payload)"
       "slice payload (dPos + 1) (int64 (p + eLen)) = Inr bs"
       "txType = uint ty" and
    k: "keccak1 ctxe = ty # bs"
    unfolding typedEnvelope_Inr_iff by auto
  have lt: "uint ty < 2 \<longleftrightarrow> ty < 2"
    by (simp add: word_less_def)
  from wf eq e(6) have wf': "walkFields payload p False (uint ty) = Some (Inr (sl, she))"
    by simp
  then have wf2: "walkFields payload p False (if ty < 2 then 1 else 2) = Some (Inr (sl, she))"
    using walkFields_layout[of payload p False "uint ty"] lt by simp
  from sh eq have "\<exists>pe c'. signatureAndHashes K ctxe payload pos False p she sl
      = (Inr (slot, pe), c')" by blast
  then obtain pv x pr rr ps ss body where
    g: "parseUint64 payload she = Inr (pv, x)" "x \<le> 1"
       "parseUint256 payload pv = Inr (pr, rr)"
       "parseUint256 payload pr = Inr (ps, ss)"
       "slice payload p she = Inr body"
       "slot = sl\<lparr> idHash := K (keccak1 ctxe) \<rparr>"
    unfolding signatureAndHashes_typed by blast
  from g(6) k have s: "slot = sl\<lparr> idHash := K (ty # bs) \<rparr>" by simp
  have fee: "ty < 2 \<longrightarrow> feeCap slot = tip slot"
    using walkFields_feeCap[OF wf'] lt s by simp
  have ?R
    apply (intro exI conjI)
                apply (rule e(1))
               apply (rule e(2))
              apply (rule e(3))
             apply (rule e(4))
            apply (rule e(5))
           apply (rule wf2)
          apply (rule g(1))
         apply (rule g(2))
        apply (rule g(3))
       apply (rule g(4))
      apply (rule g(5))
     apply (rule s)
    apply (rule fee)
    done
  with span eq show "?S \<and> ?R" by simp
next
  assume a: "?S \<and> ?R"
  then have span: ?S ..
  from a obtain ty ePos eLen bs sl she pv x pr rr ps ss body where
    e: "index payload dPos = Inr ty" "dPos + 1 < int (length payload)"
       "prefix payload (dPos + 1) = Inr (ePos, eLen, True)"
       "int64 (ePos + eLen) \<le> int (length payload)"
       "slice payload (dPos + 1) (int64 (ePos + eLen)) = Inr bs" and
    wf2: "walkFields payload ePos False (if ty < 2 then 1 else 2) = Some (Inr (sl, she))" and
    g: "parseUint64 payload she = Inr (pv, x)" "x \<le> 1"
       "parseUint256 payload pv = Inr (pr, rr)"
       "parseUint256 payload pr = Inr (ps, ss)"
       "slice payload ePos she = Inr body" and
    s: "slot = sl\<lparr> idHash := K (ty # bs) \<rparr>"
    by blast
  let ?c = "ctx\<lparr> keccak1 := [] \<rparr>\<lparr> keccak1 := keccak1 (ctx\<lparr> keccak1 := [] \<rparr>) @ ty # bs,
      keccak2 := keccak2 (ctx\<lparr> keccak1 := [] \<rparr>) @ [ty] \<rparr>"
  from e have env: "typedEnvelope (ctx\<lparr> keccak1 := [] \<rparr>) payload dPos
      = (Inr (uint ty, ePos), ?c)"
    unfolding typedEnvelope_Inr_iff by blast
  have lt: "uint ty < 2 \<longleftrightarrow> ty < 2"
    by (simp add: word_less_def)
  from wf2 have wf: "walkFields payload ePos False (uint ty) = Some (Inr (sl, she))"
    using walkFields_layout[of payload ePos False "uint ty"] lt by simp
  have "keccak1 ?c = ty # bs" by simp
  with g s have "\<exists>pe c'. signatureAndHashes K ?c payload pos False ePos she sl
      = (Inr (slot, pe), c')"
    unfolding signatureAndHashes_typed by auto
  then obtain pe c' where
    sh: "signatureAndHashes K ?c payload pos False ePos she sl = (Inr (slot, pe), c')"
    by blast
  from pre have ne: "payload \<noteq> []"
    by (auto dest: prefix_Inr_pos)
  from ne pre span env wf sh
  have "ParseTransaction K ctx payload pos = Some (Inr (slot, pe), c')"
    by (simp add: ParseTransaction_def)
  then show ?L by (simp add: descriptor_def)
qed

theorem typed_discriminant_selects_layout_witness:
  "prefix [0x8d, 0x00, 0xcb, 0x80, 0x80, 0x05, 0x80, 0x80, 0x80, 0x80, 0xc0, 0x80, 0x80, 0x80] 0
     = Inr (1, 13, False) \<and>
   descriptor (ParseTransaction id NewTxParseContext
     [0x8d, 0x00, 0xcb, 0x80, 0x80, 0x05, 0x80, 0x80, 0x80, 0x80, 0xc0, 0x80, 0x80, 0x80] 0)
     = Some (zeroSlot\<lparr> tip := 5, feeCap := 5, creation := True,
          idHash := [0x00, 0xcb, 0x80, 0x80, 0x05, 0x80, 0x80, 0x80, 0x80, 0xc0,
                     0x80, 0x80, 0x80] \<rparr>) \<and>
   (\<exists>ty ePos eLen sl she.
      index [0x8d, 0x00, 0xcb, 0x80, 0x80, 0x05, 0x80, 0x80, 0x80, 0x80, 0xc0, 0x80, 0x80, 0x80]
        1 = Inr ty \<and>
      prefix [0x8d, 0x00, 0xcb, 0x80, 0x80, 0x05, 0x80, 0x80, 0x80, 0x80, 0xc0, 0x80, 0x80, 0x80]
        (1 + 1) = Inr (ePos, eLen, True) \<and>
      walkFields
        [0x8d, 0x00, 0xcb, 0x80, 0x80, 0x05, 0x80, 0x80, 0x80, 0x80, 0xc0, 0x80, 0x80, 0x80]
        ePos False (if ty < 2 then 1 else 2) = Some (Inr (sl, she)))"
proof -
  let ?tx = "[0x8d, 0x00, 0xcb, 0x80, 0x80, 0x05, 0x80, 0x80, 0x80, 0x80, 0xc0, 0x80, 0x80, 0x80]
     :: byte list"
  have h: "prefix ?tx 0 = Inr (1, 13, False)"
    by (simp add: prim_defs)
  from typed_discriminant_selects_layout [OF h, THEN iffD1, OF type0_accepted]
    h type0_accepted show ?thesis
    by blast
qed

text \<open>
  C4, as stated, fails: a typed string with the type byte \<open>0x03\<close> is parsed as a
  dynamic-fee transaction and a descriptor is returned.
\<close>

theorem unknown_type_accepted:
  "prefix [0x8e, 0x03, 0xcc, 0x80, 0x80, 0x80, 0x80, 0x80, 0x80, 0x80, 0x80, 0xc0, 0x80, 0x80, 0x80]
     0 = Inr (1, 14, False) \<and>
   index [0x8e, 0x03, 0xcc, 0x80, 0x80, 0x80, 0x80, 0x80, 0x80, 0x80, 0x80, 0xc0, 0x80, 0x80, 0x80]
     1 = Inr 0x03 \<and>
   descriptor (ParseTransaction id NewTxParseContext
     [0x8e, 0x03, 0xcc, 0x80, 0x80, 0x80, 0x80, 0x80, 0x80, 0x80, 0x80, 0xc0, 0x80, 0x80, 0x80] 0)
     = Some (zeroSlot\<lparr> creation := True,
          idHash := [0x03, 0xcc, 0x80, 0x80, 0x80, 0x80, 0x80, 0x80, 0x80, 0x80, 0xc0,
                     0x80, 0x80, 0x80] \<rparr>)"
  by (simp add: eval_defs)

end
